theory Spec2Isabelle
  imports Main "HOL-Library.Word"
begin

section \<open>YellowTeeth v3: the tooth-brushing exhibit controller\<close>

text \<open>
  A shallow embedding of \<^verbatim>\<open>YellowTeeth_v3.ino\<close>. The sketch polls a vibration
  sensor, reads two temperature probes and switches three heater lines.

  Integers. \<^verbatim>\<open>unsigned long\<close> (the type of \<^verbatim>\<open>millis()\<close> and of every stored
  timestamp) is 32 bits wide on the Arduino cores and is modelled as \<open>32 word\<close>: \<open>+\<close> and
  \<open>-\<close> wrap, \<open><\<close> compares unsigned. \<^verbatim>\<open>int\<close> values (the analog sample, the
  temperatures, the targets) are held as \<open>int\<close>. The sketch does arithmetic on them in
  one place only, \<^verbatim>\<open>abs(TempValue1 - TempValue2)\<close>; there the result of the
  subtraction and of the negation is wrapped to the width of the board's \<^verbatim>\<open>int\<close>
  (16 bits on AVR, 32 bits on the 32-bit cores), the two's-complement result the
  compiled code produces. An \<^verbatim>\<open>int\<close> constant that meets an \<^verbatim>\<open>unsigned long\<close>
  in an expression is converted with \<open>word_of_int\<close>, as the usual arithmetic
  conversions of C do.
\<close>

type_synonym ulong = "32 word"

subsection \<open>Constants of the sketch\<close>

definition NumHeaterPins :: nat where "NumHeaterPins = 3"
definition HeaterPin :: "int list" where "HeaterPin = [9, 10, 11]"
definition StandByTarget :: int where "StandByTarget = 25"
definition HeatTarget :: int where "HeatTarget = 33"

definition TriggerThreshold :: int where "TriggerThreshold = 100"
definition TriggerTimeframe :: int where "TriggerTimeframe = 3000"
definition TriggerFrequency :: nat where "TriggerFrequency = 2"

definition TempatureReadDelay :: int where "TempatureReadDelay = 1000"
definition LowerBound :: int where "LowerBound = -20"
definition DeviationBound :: int where "DeviationBound = 10"
definition HeatOnDuration :: int where "HeatOnDuration = 15000"
definition DebugDelay :: int where "DebugDelay = 1000"

subsection \<open>What the board contributes\<close>

text \<open>
  Three things the sketch uses are fixed by the board it is compiled for, not by the
  sketch: the size of a data pointer, which \<^verbatim>\<open>PushDown\<close> reads through
  \<^verbatim>\<open>sizeof(InputArray)\<close> (an array parameter is a pointer), the pin number behind
  \<^verbatim>\<open>LED_BUILTIN\<close>, and the width of \<^verbatim>\<open>int\<close> in bits. All three are parameters
  of the model. \<^verbatim>\<open>sizeof(unsigned long)\<close> is 4, as the 32-bit model of that type says.
\<close>

record board =
  sizeof_ptr :: nat
  LED_BUILTIN :: int
  int_bits :: nat

definition sizeof_unsigned_long :: nat where "sizeof_unsigned_long = 4"

text \<open>
  An AVR board (Uno): 2-byte pointers, 16-bit \<^verbatim>\<open>int\<close>. A 32-bit board (Due, Zero):
  4-byte pointers, 32-bit \<^verbatim>\<open>int\<close>.
\<close>

definition avr_board :: board where
  "avr_board = \<lparr>sizeof_ptr = 2, LED_BUILTIN = 13, int_bits = 16\<rparr>"

definition arm_board :: board where
  "arm_board = \<lparr>sizeof_ptr = 4, LED_BUILTIN = 13, int_bits = 32\<rparr>"

subsection \<open>Global variables, pins and the serial line\<close>

text \<open>What is printed on the serial line, one event per message.\<close>

datatype event =
    SetupComplete
  | SanityFailed int int
  | Status int ulong int bool int bool bool

record state =
  SpikeUp :: bool
  SpikeHistory :: "ulong list"
  LastDebugMsg :: ulong
  HeatEnableTime :: ulong
  LastTempatureReadTime :: ulong
  TargetTempature :: int
  HeaterEnable :: "bool list"
  HeatOn :: bool
  LeftTempature :: int
  RightTempature :: int
  pins :: "int \<Rightarrow> bool"
  serial :: "event list"

text \<open>
  The declared array sizes: \<^verbatim>\<open>SpikeHistory[TriggerFrequency]\<close> and
  \<^verbatim>\<open>HeaterEnable[NumHeaterPins]\<close>.
\<close>

definition wf_state :: "state \<Rightarrow> bool" where
  "wf_state s \<longleftrightarrow>
     length (SpikeHistory s) = TriggerFrequency \<and> length (HeaterEnable s) = NumHeaterPins"

text \<open>
  What one pass through \<^verbatim>\<open>loop()\<close> reads from outside: the analog sample, the two
  probe readings after their conversion to \<^verbatim>\<open>int\<close>, and the value of each call of
  \<^verbatim>\<open>millis()\<close>, one field per call site (the clock advances between them:
  \<^verbatim>\<open>requestTemperatures()\<close> alone blocks for many milliseconds). A field is read only
  if control reaches its call site.
\<close>

record inputs =
  analog :: int
  now_spike :: ulong      \<comment> \<open>line 209, \<^verbatim>\<open>PushDown(SpikeHistory, millis())\<close>\<close>
  now_gate :: ulong       \<comment> \<open>line 105\<close>
  now_read :: ulong       \<comment> \<open>line 106\<close>
  left_C :: int           \<comment> \<open>line 111\<close>
  right_C :: int          \<comment> \<open>line 112\<close>
  now_trig :: ulong       \<comment> \<open>line 128\<close>
  now_target :: ulong     \<comment> \<open>line 131\<close>
  now_dbg_gate :: ulong   \<comment> \<open>line 167\<close>
  now_dbg_left :: ulong   \<comment> \<open>line 171\<close>
  now_dbg_mark :: ulong   \<comment> \<open>line 185\<close>

text \<open>An access outside an array is undefined behaviour in C; the model stops there.\<close>

datatype fault = OutOfBounds

subsection \<open>\<^verbatim>\<open>PushDown\<close>\<close>

text \<open>
  \<^verbatim>\<open>for (int i = 0; i < ArraySize-1; i++) InputArray[i] = InputArray[i+1];\<close>
  with its counter and bound as the \<^verbatim>\<open>int\<close>s they are.
\<close>

function PushDown_loop :: "int \<Rightarrow> int \<Rightarrow> ulong list \<Rightarrow> fault + ulong list" where
  "PushDown_loop i ArraySize InputArray =
     (if i < ArraySize - 1 then
        (if 0 \<le> i \<and> nat (i + 1) < length InputArray
         then PushDown_loop (i + 1) ArraySize (InputArray[nat i := InputArray ! nat (i + 1)])
         else Inl OutOfBounds)
      else Inr InputArray)"
  by pat_completeness auto
termination
  by (relation "measure (\<lambda>(i, ArraySize, InputArray). nat (ArraySize - 1 - i))") auto

declare PushDown_loop.simps [simp del]

definition store :: "ulong list \<Rightarrow> int \<Rightarrow> ulong \<Rightarrow> fault + ulong list" where
  "store InputArray i v =
     (if 0 \<le> i \<and> nat i < length InputArray then Inr (InputArray[nat i := v])
      else Inl OutOfBounds)"

definition PushDown :: "board \<Rightarrow> ulong list \<Rightarrow> ulong \<Rightarrow> fault + ulong list" where
  "PushDown bd InputArray InputValue =
     (let ArraySize = int (sizeof_ptr bd div sizeof_unsigned_long) in
      case PushDown_loop 0 ArraySize InputArray of
        Inl e \<Rightarrow> Inl e
      | Inr a \<Rightarrow> store a (ArraySize - 1) InputValue)"

subsection \<open>\<^verbatim>\<open>InputCheck\<close>\<close>

definition InputCheck :: "board \<Rightarrow> inputs \<Rightarrow> state \<Rightarrow> fault + (bool \<times> state)" where
  "InputCheck bd inp s =
     (let InputValue = analog inp;
          s1 = (if \<not> SpikeUp s \<and> InputValue > TriggerThreshold
                then s\<lparr>SpikeUp := True\<rparr> else s)
      in if SpikeUp s1 \<and> InputValue < TriggerThreshold then
           (case PushDown bd (SpikeHistory s1) (now_spike inp) of
              Inl e \<Rightarrow> Inl e
            | Inr h \<Rightarrow>
                (let s2 = s1\<lparr>SpikeHistory := h, SpikeUp := False\<rparr>
                 in if SpikeHistory s2 ! (TriggerFrequency - 1) - SpikeHistory s2 ! 0
                         < word_of_int TriggerTimeframe
                    then Inr (True, s2)
                    else Inr (False, s2)))
         else Inr (False, s1))"

subsection \<open>\<^verbatim>\<open>TempSanityCheck\<close>\<close>

text \<open>
  The largest \<^verbatim>\<open>int\<close> of the board, and the value an \<^verbatim>\<open>int\<close> operation leaves
  when its exact result is \<open>x\<close>: \<open>x\<close> itself inside the range, wrapped around by a
  multiple of \<open>2 ^ int_bits\<close> outside it.
\<close>

definition INT_MAX :: "board \<Rightarrow> int" where
  "INT_MAX bd = 2 ^ (int_bits bd - 1) - 1"

definition int_wrap :: "board \<Rightarrow> int \<Rightarrow> int" where
  "int_wrap bd x =
     (x + 2 ^ (int_bits bd - 1)) mod 2 ^ int_bits bd - 2 ^ (int_bits bd - 1)"

text \<open>
  Modelled from the spec: \<^verbatim>\<open>abs\<close> is not defined in the sketch, which takes it from
  the Arduino core; it is the absolute value of the specification's
  \<open>|readingA - readingB|\<close>, computed in the board's \<^verbatim>\<open>int\<close> as the core's macro
  \<^verbatim>\<open>((x)>0?(x):-(x))\<close> does, so that the negation of the smallest \<^verbatim>\<open>int\<close> wraps
  back to it.
\<close>

definition abs_ino :: "board \<Rightarrow> int \<Rightarrow> int" where
  "abs_ino bd x = (if x > 0 then x else int_wrap bd (- x))"

definition TempSanityCheck :: "board \<Rightarrow> int \<Rightarrow> int \<Rightarrow> bool" where
  "TempSanityCheck bd TempValue1 TempValue2 =
     (if TempValue1 < LowerBound \<or> TempValue2 < LowerBound then False
      else if abs_ino bd (int_wrap bd (TempValue1 - TempValue2)) > DeviationBound then False
      else True)"

subsection \<open>The start state\<close>

text \<open>
  The globals after their initialisers and after \<^verbatim>\<open>setup()\<close> has filled the two
  arrays. The levels of the pins at that moment belong to the hardware and are a
  parameter.
\<close>

definition setup_ino :: "(int \<Rightarrow> bool) \<Rightarrow> state" where
  "setup_ino pins0 =
     \<lparr>SpikeUp = False,
      SpikeHistory = replicate TriggerFrequency 0,
      LastDebugMsg = 0,
      HeatEnableTime = 0,
      LastTempatureReadTime = 0,
      TargetTempature = 0,
      HeaterEnable = replicate NumHeaterPins False,
      HeatOn = False,
      LeftTempature = 0,
      RightTempature = 0,
      pins = pins0,
      serial = [SetupComplete]\<rparr>"

subsection \<open>\<^verbatim>\<open>loop\<close>\<close>

definition digitalWrite :: "int \<Rightarrow> bool \<Rightarrow> state \<Rightarrow> state" where
  "digitalWrite pin level s = s\<lparr>pins := (pins s)(pin := level)\<rparr>"

text \<open>Line 105: is a temperature read due?\<close>

definition read_due :: "inputs \<Rightarrow> state \<Rightarrow> bool" where
  "read_due inp s \<longleftrightarrow>
     now_gate inp > LastTempatureReadTime s + word_of_int TempatureReadDelay"

text \<open>Lines 106 to 112: take the time and store both readings.\<close>

definition read_temperatures :: "inputs \<Rightarrow> state \<Rightarrow> state" where
  "read_temperatures inp s =
     s\<lparr>LastTempatureReadTime := now_read inp,
       LeftTempature := left_C inp,
       RightTempature := right_C inp\<rparr>"

text \<open>Lines 116 to 122: report, and clear every flag.\<close>

definition sanity_failed :: "state \<Rightarrow> state" where
  "sanity_failed s =
     s\<lparr>serial := serial s @ [SanityFailed (LeftTempature s) (RightTempature s)],
       HeaterEnable := fold (\<lambda>i h. h[i := False]) [0..<NumHeaterPins] (HeaterEnable s)\<rparr>"

text \<open>Lines 127 to 135: restart the hold window on a trigger, then choose the target.\<close>

definition set_target :: "inputs \<Rightarrow> bool \<Rightarrow> state \<Rightarrow> state" where
  "set_target inp Triggered s =
     (let s1 = (if Triggered then s\<lparr>HeatEnableTime := now_trig inp\<rparr> else s)
      in if now_target inp < HeatEnableTime s1 + word_of_int HeatOnDuration
         then s1\<lparr>TargetTempature := HeatTarget\<rparr>
         else s1\<lparr>TargetTempature := StandByTarget\<rparr>)"

text \<open>Lines 140 to 154: the three flags.\<close>

definition set_heaters :: "state \<Rightarrow> state" where
  "set_heaters s =
     (let h0 = (HeaterEnable s)[0 := LeftTempature s < TargetTempature s];
          h1 = h0[1 := RightTempature s < TargetTempature s];
          h2 = h1[2 := h1 ! 0 \<and> h1 ! 1]
      in s\<lparr>HeaterEnable := h2\<rparr>)"

text \<open>Lines 157 to 165: the flags go out to the pins.\<close>

definition drive_pin :: "board \<Rightarrow> nat \<Rightarrow> state \<Rightarrow> state" where
  "drive_pin bd i s =
     (if HeaterEnable s ! i
      then digitalWrite (LED_BUILTIN bd) True (digitalWrite (HeaterPin ! i) True s)
      else digitalWrite (HeaterPin ! i) False s)"

definition drive_outputs :: "board \<Rightarrow> state \<Rightarrow> state" where
  "drive_outputs bd s = fold (drive_pin bd) [0..<NumHeaterPins] s"

text \<open>Lines 167 to 186: the status line.\<close>

definition debug_msg :: "inputs \<Rightarrow> state \<Rightarrow> state" where
  "debug_msg inp s =
     (if now_dbg_gate inp > LastDebugMsg s + word_of_int DebugDelay then
        s\<lparr>serial := serial s @
             [Status (TargetTempature s)
                (HeatEnableTime s + word_of_int HeatOnDuration - now_dbg_left inp)
                (LeftTempature s) (HeaterEnable s ! 0)
                (RightTempature s) (HeaterEnable s ! 1)
                (HeaterEnable s ! 2)],
          LastDebugMsg := now_dbg_mark inp\<rparr>
      else s)"

text \<open>Everything from line 127 on: what an iteration does once it is past the gate.\<close>

definition heat_control :: "board \<Rightarrow> inputs \<Rightarrow> bool \<Rightarrow> state \<Rightarrow> state" where
  "heat_control bd inp Triggered s =
     debug_msg inp (drive_outputs bd (set_heaters (set_target inp Triggered s)))"

definition loop :: "board \<Rightarrow> inputs \<Rightarrow> state \<Rightarrow> fault + state" where
  "loop bd inp s =
     (case InputCheck bd inp s of
        Inl e \<Rightarrow> Inl e
      | Inr (Triggered, s1) \<Rightarrow>
          (let s2 = digitalWrite (LED_BUILTIN bd) False s1 in
           if read_due inp s2 then
             (let s3 = read_temperatures inp s2 in
              if TempSanityCheck bd (LeftTempature s3) (RightTempature s3) = False
              then Inr (sanity_failed s3)
              else Inr (heat_control bd inp Triggered s3))
           else Inr (heat_control bd inp Triggered s2)))"

text \<open>Successive iterations, one record of inputs each; a fault ends the run.\<close>

fun run :: "board \<Rightarrow> inputs list \<Rightarrow> state \<Rightarrow> fault + state" where
  "run bd [] s = Inr s"
| "run bd (inp # inps) s =
     (case loop bd inp s of Inl e \<Rightarrow> Inl e | Inr s' \<Rightarrow> run bd inps s')"

text \<open>
  The iteration ends at the \<^verbatim>\<open>return\<close> of line 123: a read is due and the new
  readings fail the check.
\<close>

definition sanity_return :: "board \<Rightarrow> inputs \<Rightarrow> state \<Rightarrow> bool" where
  "sanity_return bd inp s \<longleftrightarrow>
     read_due inp s \<and> \<not> TempSanityCheck bd (left_C inp) (right_C inp)"

subsection \<open>Boards, inputs and states for the worked examples\<close>

text \<open>
  A third board besides the two above: 8-byte pointers next to the 4-byte
  \<^verbatim>\<open>unsigned long\<close>, the one pointer size at which \<^verbatim>\<open>PushDown\<close> computes the
  declared array size 2. No Arduino core is built this way; the board shows what the
  sketch does when \<^verbatim>\<open>PushDown\<close> happens to see the whole array.
\<close>

definition wide_board :: board where
  "wide_board = \<lparr>sizeof_ptr = 8, LED_BUILTIN = 13, int_bits = 32\<rparr>"

text \<open>An iteration that runs within one millisecond: every clock read gives \<open>t\<close>.\<close>

definition tick :: "int \<Rightarrow> ulong \<Rightarrow> int \<Rightarrow> int \<Rightarrow> inputs" where
  "tick a t l r =
     \<lparr>analog = a, now_spike = t, now_gate = t, now_read = t, left_C = l, right_C = r,
      now_trig = t, now_target = t, now_dbg_gate = t, now_dbg_left = t, now_dbg_mark = t\<rparr>"

definition all_low :: "int \<Rightarrow> bool" where
  "all_low pin = False"

definition all_high :: "int \<Rightarrow> bool" where
  "all_high pin = True"

text \<open>The value of a state component after a run, \<open>None\<close> if the run ended in a fault.\<close>

definition after :: "(state \<Rightarrow> 'a) \<Rightarrow> fault + state \<Rightarrow> 'a option" where
  "after f r = (case r of Inl e \<Rightarrow> None | Inr s \<Rightarrow> Some (f s))"

definition heater_levels :: "state \<Rightarrow> bool list" where
  "heater_levels s = map (pins s) HeaterPin"

text \<open>The answers of \<^verbatim>\<open>InputCheck\<close> over successive samples; a fault ends the list.\<close>

fun polls :: "board \<Rightarrow> inputs list \<Rightarrow> state \<Rightarrow> (fault + bool) list" where
  "polls bd [] s = []"
| "polls bd (inp # inps) s =
     (case InputCheck bd inp s of
        Inl e \<Rightarrow> [Inl e]
      | Inr (b, s') \<Rightarrow> Inr b # polls bd inps s')"

text \<open>
  Following the specification's words for the Spike Window, not the code: ``pushing a new
  timestamp evicts the oldest'', the window staying ordered oldest to newest.
\<close>

definition fifo_push :: "ulong list \<Rightarrow> ulong \<Rightarrow> ulong list" where
  "fifo_push window t = tl window @ [t]"

text \<open>Right after the start, with the vibration signal above the threshold.\<close>

definition spiking :: state where
  "spiking = (setup_ino all_low)\<lparr>SpikeUp := True\<rparr>"

text \<open>
  The same, about 49.7 days later, a few seconds before the 32-bit millisecond clock
  wraps; the last temperature read and the last status line were at 4294965000 ms.
\<close>

definition late_spiking :: state where
  "late_spiking = (setup_ino all_low)
     \<lparr>SpikeUp := True, LastTempatureReadTime := 4294965000, LastDebugMsg := 4294965000\<rparr>"

text \<open>
  One minute after the start: standby target, both probes below it, all three heater
  lines and the LED high.
\<close>

definition heating :: state where
  "heating = (setup_ino all_high)
     \<lparr>HeaterEnable := [True, True, True], TargetTempature := 25, LeftTempature := 22,
       RightTempature := 23, LastTempatureReadTime := 60000, LastDebugMsg := 60500\<rparr>"

text \<open>
  Two spikes: above the threshold at 0 ms, below at 1000 ms, above at 1200 ms, below at
  1500 ms.
\<close>

definition scenario :: "inputs list" where
  "scenario =
     [tick 150 0 22 23, tick 50 1000 22 23, tick 150 1200 22 23, tick 50 1500 22 23]"

section \<open>Properties\<close>

subsection \<open>Auxiliary facts\<close>

lemmas sketch_consts =
  HeaterPin_def StandByTarget_def HeatTarget_def TriggerThreshold_def
  TriggerTimeframe_def TriggerFrequency_def TempatureReadDelay_def LowerBound_def
  DeviationBound_def HeatOnDuration_def DebugDelay_def sizeof_unsigned_long_def

lemma upt_NumHeaterPins: "[0..<NumHeaterPins] = [0, 1, 2]"
  by (simp add: NumHeaterPins_def upt_rec)

lemma setup_ino_eq:
  "setup_ino pins0 =
     \<lparr>SpikeUp = False, SpikeHistory = [0, 0], LastDebugMsg = 0, HeatEnableTime = 0,
      LastTempatureReadTime = 0, TargetTempature = 0,
      HeaterEnable = [False, False, False], HeatOn = False, LeftTempature = 0,
      RightTempature = 0, pins = pins0, serial = [SetupComplete]\<rparr>"
  by (simp add: setup_ino_def TriggerFrequency_def NumHeaterPins_def numeral_2_eq_2
      numeral_3_eq_3)

lemma wf_setup_ino: "wf_state (setup_ino pins0)"
  by (simp add: wf_state_def setup_ino_def)

text \<open>\<^verbatim>\<open>PushDown\<close> keeps the length of the array it is given.\<close>

lemma PushDown_loop_length:
  "PushDown_loop i n a = Inr h \<Longrightarrow> length h = length a"
proof (induction i n a rule: PushDown_loop.induct)
  case (1 i ArraySize InputArray)
  show ?case
  proof (cases "i < ArraySize - 1")
    case True
    with "1.prems" have ok: "0 \<le> i \<and> nat (i + 1) < length InputArray"
      by (subst (asm) PushDown_loop.simps) (simp split: if_splits)
    with True "1.prems"
    have "PushDown_loop (i + 1) ArraySize (InputArray[nat i := InputArray ! nat (i + 1)]) = Inr h"
      by (subst (asm) PushDown_loop.simps) simp
    with "1.IH" True ok show ?thesis by simp
  next
    case False
    with "1.prems" show ?thesis
      by (subst (asm) PushDown_loop.simps) simp
  qed
qed

lemma PushDown_length: "PushDown bd a v = Inr h \<Longrightarrow> length h = length a"
  by (auto simp: PushDown_def Let_def store_def split: sum.splits if_splits
           dest: PushDown_loop_length)

text \<open>
  On the two-element array of the sketch, by the array size \<^verbatim>\<open>PushDown\<close> computes:
  size 1 overwrites the first entry, size 2 shifts and appends, and every other size
  reaches outside the array.
\<close>

lemma PushDown_two:
  "PushDown bd [a, b] v =
     (if sizeof_ptr bd div sizeof_unsigned_long = 1 then Inr [v, b]
      else if sizeof_ptr bd div sizeof_unsigned_long = 2 then Inr [b, v]
      else Inl OutOfBounds)"
proof -
  let ?n = "sizeof_ptr bd div sizeof_unsigned_long"
  consider "?n = 0" | "?n = 1" | "?n = 2" | "3 \<le> ?n" by linarith
  then show ?thesis
  proof cases
    case 1
    then show ?thesis by (simp add: PushDown_def PushDown_loop.simps store_def)
  next
    case 2
    then show ?thesis by (simp add: PushDown_def PushDown_loop.simps store_def)
  next
    case 3
    then show ?thesis by (simp add: PushDown_def PushDown_loop.simps store_def)
  next
    case 4
    then have "PushDown_loop 0 (int ?n) [a, b] = Inl OutOfBounds"
      by (simp add: PushDown_loop.simps [of 0] PushDown_loop.simps [of 1])
    with 4 show ?thesis by (simp add: PushDown_def)
  qed
qed

text \<open>
  Whenever the size \<^verbatim>\<open>PushDown\<close> computes is the real length of the array, the
  function is the push of the specification: the loop moves every entry one place
  towards index 0 and the store puts the new value last.
\<close>

lemma PushDown_loop_shift:
  "0 \<le> i \<Longrightarrow> nat i < length a \<Longrightarrow> n = int (length a) \<Longrightarrow>
     PushDown_loop i n a = Inr (take (nat i) a @ drop (Suc (nat i)) a @ [last a])"
proof (induction i n a rule: PushDown_loop.induct)
  case (1 i ArraySize InputArray)
  let ?k = "nat i"
  show ?case
  proof (cases "i < ArraySize - 1")
    case True
    with "1.prems" have in_range: "Suc ?k < length InputArray" by simp
    let ?a' = "InputArray[?k := InputArray ! Suc ?k]"
    from "1.prems" have suc: "nat (i + 1) = Suc ?k" by simp
    from True "1.prems" in_range
    have "PushDown_loop (i + 1) ArraySize ?a'
            = Inr (take (Suc ?k) ?a' @ drop (Suc (Suc ?k)) ?a' @ [last ?a'])"
      using "1.IH" [OF True] by (simp add: suc)
    moreover have "take (Suc ?k) ?a' = take ?k InputArray @ [InputArray ! Suc ?k]"
      using in_range by (simp add: take_Suc_conv_app_nth)
    moreover have "drop (Suc (Suc ?k)) ?a' = drop (Suc (Suc ?k)) InputArray"
      by simp
    moreover have "last ?a' = last InputArray"
    proof -
      from in_range have ne: "InputArray \<noteq> []" by auto
      from in_range have "?k \<noteq> length InputArray - 1" by arith
      then show ?thesis by (simp add: last_list_update [OF ne])
    qed
    moreover have "drop (Suc ?k) InputArray = InputArray ! Suc ?k # drop (Suc (Suc ?k)) InputArray"
      using in_range by (simp add: Cons_nth_drop_Suc)
    ultimately show ?thesis
      using True "1.prems" in_range by (subst PushDown_loop.simps) (simp add: suc)
  next
    case False
    with "1.prems" have k: "?k = length InputArray - 1" and ne: "InputArray \<noteq> []"
      by auto
    then have "take ?k InputArray = butlast InputArray"
      by (simp add: butlast_conv_take)
    with False k ne show ?thesis
      by (subst PushDown_loop.simps) simp
  qed
qed

lemma PushDown_fifo_when_sized:
  assumes "a \<noteq> []" and "sizeof_ptr bd div sizeof_unsigned_long = length a"
  shows "PushDown bd a v = Inr (fifo_push a v)"
proof -
  from assms(1) have "PushDown_loop 0 (int (length a)) a = Inr (tl a @ [last a])"
    using PushDown_loop_shift [of 0 a "int (length a)"] by (simp add: drop_Suc)
  moreover from assms(1) have "(tl a @ [last a])[length a - 1 := v] = tl a @ [v]"
    by (metis length_tl list_update_length)
  moreover from assms(1) have "nat (int (length a) - 1) = length a - 1" "0 < length a"
    by simp_all
  ultimately show ?thesis
    using assms by (simp add: PushDown_def store_def fifo_push_def Let_def)
qed

text \<open>\<^verbatim>\<open>InputCheck\<close> writes \<^verbatim>\<open>SpikeUp\<close> and \<^verbatim>\<open>SpikeHistory\<close> and nothing else.\<close>

lemma InputCheck_frame:
  "InputCheck bd inp s = Inr (b, s1) \<Longrightarrow>
     s1 = s\<lparr>SpikeUp := SpikeUp s1, SpikeHistory := SpikeHistory s1\<rparr>"
  by (auto simp: InputCheck_def Let_def split: if_splits sum.splits)

lemma InputCheck_length:
  "InputCheck bd inp s = Inr (b, s1) \<Longrightarrow> length (SpikeHistory s1) = length (SpikeHistory s)"
  by (auto simp: InputCheck_def Let_def split: if_splits sum.splits dest: PushDown_length)

lemma InputCheck_fields:
  assumes "InputCheck bd inp s = Inr (b, s1)"
  shows "HeatEnableTime s1 = HeatEnableTime s" "TargetTempature s1 = TargetTempature s"
    "LastDebugMsg s1 = LastDebugMsg s" "pins s1 = pins s" "HeaterEnable s1 = HeaterEnable s"
    "LeftTempature s1 = LeftTempature s" "RightTempature s1 = RightTempature s"
  by (subst InputCheck_frame [OF assms], simp)+

text \<open>A call that completes no spike cannot fault.\<close>

lemma InputCheck_no_spike:
  "\<not> (SpikeUp s \<and> analog inp < TriggerThreshold) \<Longrightarrow>
     \<exists>s1. InputCheck bd inp s = Inr (False, s1)"
  by (auto simp: InputCheck_def Let_def)

text \<open>What each step of \<^verbatim>\<open>loop\<close> does to each global.\<close>

lemma read_due_frame:
  "read_due inp (digitalWrite p v s) = read_due inp s"
  "read_due inp (s\<lparr>SpikeUp := u, SpikeHistory := h\<rparr>) = read_due inp s"
  by (simp_all add: read_due_def digitalWrite_def)

lemma digitalWrite_fields:
  "HeatEnableTime (digitalWrite p v s) = HeatEnableTime s"
  "TargetTempature (digitalWrite p v s) = TargetTempature s"
  "LastDebugMsg (digitalWrite p v s) = LastDebugMsg s"
  "pins (digitalWrite p v s) = (pins s)(p := v)"
  "HeaterEnable (digitalWrite p v s) = HeaterEnable s"
  "LeftTempature (digitalWrite p v s) = LeftTempature s"
  "RightTempature (digitalWrite p v s) = RightTempature s"
  by (simp_all add: digitalWrite_def)

lemma read_temperatures_fields:
  "HeatEnableTime (read_temperatures inp s) = HeatEnableTime s"
  "TargetTempature (read_temperatures inp s) = TargetTempature s"
  "LastDebugMsg (read_temperatures inp s) = LastDebugMsg s"
  "pins (read_temperatures inp s) = pins s"
  "HeaterEnable (read_temperatures inp s) = HeaterEnable s"
  "LeftTempature (read_temperatures inp s) = left_C inp"
  "RightTempature (read_temperatures inp s) = right_C inp"
  by (simp_all add: read_temperatures_def)

lemma sanity_failed_fields:
  "HeatEnableTime (sanity_failed s) = HeatEnableTime s"
  "TargetTempature (sanity_failed s) = TargetTempature s"
  "LastDebugMsg (sanity_failed s) = LastDebugMsg s"
  "pins (sanity_failed s) = pins s"
  "LeftTempature (sanity_failed s) = LeftTempature s"
  "RightTempature (sanity_failed s) = RightTempature s"
  by (simp_all add: sanity_failed_def)

lemma HeaterEnable_sanity_failed:
  "length (HeaterEnable s) = NumHeaterPins \<Longrightarrow>
   HeaterEnable (sanity_failed s) = [False, False, False]"
  by (auto simp: sanity_failed_def upt_NumHeaterPins NumHeaterPins_def length_Suc_conv
      numeral_3_eq_3)

lemma set_target_fields:
  "HeatEnableTime (set_target inp t s) = (if t then now_trig inp else HeatEnableTime s)"
  "TargetTempature (set_target inp t s) =
     (if now_target inp
           < (if t then now_trig inp else HeatEnableTime s) + word_of_int HeatOnDuration
      then HeatTarget else StandByTarget)"
  "LastDebugMsg (set_target inp t s) = LastDebugMsg s"
  "HeaterEnable (set_target inp t s) = HeaterEnable s"
  "LeftTempature (set_target inp t s) = LeftTempature s"
  "RightTempature (set_target inp t s) = RightTempature s"
  "pins (set_target inp t s) = pins s"
  by (simp_all add: set_target_def Let_def)

lemma set_heaters_fields:
  "HeatEnableTime (set_heaters s) = HeatEnableTime s"
  "TargetTempature (set_heaters s) = TargetTempature s"
  "LastDebugMsg (set_heaters s) = LastDebugMsg s"
  "LeftTempature (set_heaters s) = LeftTempature s"
  "RightTempature (set_heaters s) = RightTempature s"
  "pins (set_heaters s) = pins s"
  by (simp_all add: set_heaters_def Let_def)

lemma HeaterEnable_set_heaters:
  "length (HeaterEnable s) = NumHeaterPins \<Longrightarrow>
   HeaterEnable (set_heaters s) =
     [LeftTempature s < TargetTempature s, RightTempature s < TargetTempature s,
      LeftTempature s < TargetTempature s \<and> RightTempature s < TargetTempature s]"
  by (auto simp: set_heaters_def Let_def NumHeaterPins_def length_Suc_conv numeral_3_eq_3)

lemma drive_pin_fields:
  "HeatEnableTime (drive_pin bd i s) = HeatEnableTime s"
  "TargetTempature (drive_pin bd i s) = TargetTempature s"
  "LastDebugMsg (drive_pin bd i s) = LastDebugMsg s"
  "HeaterEnable (drive_pin bd i s) = HeaterEnable s"
  "LeftTempature (drive_pin bd i s) = LeftTempature s"
  "RightTempature (drive_pin bd i s) = RightTempature s"
  "serial (drive_pin bd i s) = serial s"
  by (simp_all add: drive_pin_def digitalWrite_def)

lemma drive_outputs_fields:
  "HeatEnableTime (drive_outputs bd s) = HeatEnableTime s"
  "TargetTempature (drive_outputs bd s) = TargetTempature s"
  "LastDebugMsg (drive_outputs bd s) = LastDebugMsg s"
  "HeaterEnable (drive_outputs bd s) = HeaterEnable s"
  "LeftTempature (drive_outputs bd s) = LeftTempature s"
  "RightTempature (drive_outputs bd s) = RightTempature s"
  "serial (drive_outputs bd s) = serial s"
  by (simp_all add: drive_outputs_def upt_NumHeaterPins drive_pin_fields)

text \<open>
  After the output-drive loop each heater line carries its flag, provided the LED is not
  wired to a heater line.
\<close>

lemma heater_levels_drive_outputs:
  assumes "length (HeaterEnable s) = NumHeaterPins" and "LED_BUILTIN bd \<notin> set HeaterPin"
  shows "heater_levels (drive_outputs bd s) = HeaterEnable s"
proof -
  from assms(1) obtain a b c where h: "HeaterEnable s = [a, b, c]"
    by (auto simp: NumHeaterPins_def length_Suc_conv numeral_3_eq_3)
  have p0: "pins (drive_pin bd 0 s) =
      (if a then (pins s)(9 := True, LED_BUILTIN bd := True) else (pins s)(9 := False))"
    by (simp add: drive_pin_def digitalWrite_def HeaterPin_def h)
  have p1: "pins (drive_pin bd (Suc 0) x) =
      (if b then (pins x)(10 := True, LED_BUILTIN bd := True) else (pins x)(10 := False))"
    if "HeaterEnable x = [a, b, c]" for x
    using that by (simp add: drive_pin_def digitalWrite_def HeaterPin_def)
  have p2: "pins (drive_pin bd 2 x) =
      (if c then (pins x)(11 := True, LED_BUILTIN bd := True) else (pins x)(11 := False))"
    if "HeaterEnable x = [a, b, c]" for x
    using that by (simp add: drive_pin_def digitalWrite_def HeaterPin_def)
  from assms(2) have led: "LED_BUILTIN bd \<noteq> 9" "LED_BUILTIN bd \<noteq> 10" "LED_BUILTIN bd \<noteq> 11"
    by (simp_all add: HeaterPin_def)
  have "pins (drive_outputs bd s) 9 = a" "pins (drive_outputs bd s) 10 = b"
    "pins (drive_outputs bd s) 11 = c"
    using led by (simp_all add: drive_outputs_def upt_NumHeaterPins p0 p1 p2 drive_pin_fields h)
  then show ?thesis
    by (simp add: heater_levels_def HeaterPin_def h)
qed

lemma debug_msg_fields:
  "HeatEnableTime (debug_msg inp s) = HeatEnableTime s"
  "TargetTempature (debug_msg inp s) = TargetTempature s"
  "HeaterEnable (debug_msg inp s) = HeaterEnable s"
  "LeftTempature (debug_msg inp s) = LeftTempature s"
  "RightTempature (debug_msg inp s) = RightTempature s"
  "pins (debug_msg inp s) = pins s"
  by (simp_all add: debug_msg_def)

lemma heat_control_fields:
  "HeatEnableTime (heat_control bd inp t s) = (if t then now_trig inp else HeatEnableTime s)"
  "TargetTempature (heat_control bd inp t s) =
     (if now_target inp
           < (if t then now_trig inp else HeatEnableTime s) + word_of_int HeatOnDuration
      then HeatTarget else StandByTarget)"
  "LeftTempature (heat_control bd inp t s) = LeftTempature s"
  "RightTempature (heat_control bd inp t s) = RightTempature s"
  "HeaterEnable (heat_control bd inp t s) = HeaterEnable (set_heaters (set_target inp t s))"
  "pins (heat_control bd inp t s) = pins (drive_outputs bd (set_heaters (set_target inp t s)))"
  by (simp_all only: heat_control_def debug_msg_fields drive_outputs_fields set_heaters_fields
      set_target_fields)

lemmas step_fields =
  heat_control_fields sanity_failed_fields read_temperatures_fields digitalWrite_fields
  set_target_fields

text \<open>
  The two ways an iteration can end: at the \<^verbatim>\<open>return\<close> of line 123, or after the whole
  of lines 127 to 186.
\<close>

lemma loop_Inr:
  assumes "loop bd inp s = Inr s'"
  shows "\<exists>Triggered s1. InputCheck bd inp s = Inr (Triggered, s1) \<and>
           s' = (if sanity_return bd inp s
                 then sanity_failed
                        (read_temperatures inp (digitalWrite (LED_BUILTIN bd) False s1))
                 else heat_control bd inp Triggered
                        (if read_due inp s
                         then read_temperatures inp (digitalWrite (LED_BUILTIN bd) False s1)
                         else digitalWrite (LED_BUILTIN bd) False s1))"
proof -
  from assms obtain Triggered s1 where ic: "InputCheck bd inp s = Inr (Triggered, s1)"
    by (auto simp: loop_def split: sum.splits)
  from InputCheck_frame [OF ic] have rd: "read_due inp s1 = read_due inp s"
    by (metis read_due_frame(2))
  have lt: "LeftTempature (read_temperatures inp x) = left_C inp"
       "RightTempature (read_temperatures inp x) = right_C inp" for x
    by (simp_all add: read_temperatures_def)
  from assms ic rd lt show ?thesis
    by (auto simp: loop_def Let_def sanity_return_def read_due_frame split: if_splits)
qed

text \<open>An iteration faults only inside \<^verbatim>\<open>InputCheck\<close>.\<close>

lemma loop_returns:
  "InputCheck bd inp s = Inr (Triggered, s1) \<Longrightarrow> \<exists>s'. loop bd inp s = Inr s'"
  by (simp add: loop_def Let_def)

text \<open>The array sizes are kept.\<close>

lemma loop_wf_state:
  assumes "wf_state s" and "loop bd inp s = Inr s'"
  shows "wf_state s'"
proof -
  from loop_Inr [OF assms(2)] obtain Triggered s1 where
    ic: "InputCheck bd inp s = Inr (Triggered, s1)" and
    s': "s' = (if sanity_return bd inp s
               then sanity_failed
                      (read_temperatures inp (digitalWrite (LED_BUILTIN bd) False s1))
               else heat_control bd inp Triggered
                      (if read_due inp s
                       then read_temperatures inp (digitalWrite (LED_BUILTIN bd) False s1)
                       else digitalWrite (LED_BUILTIN bd) False s1))"
    by blast
  from assms(1) InputCheck_fields(5) [OF ic] InputCheck_length [OF ic]
  have len: "length (HeaterEnable s1) = NumHeaterPins" "length (SpikeHistory s1) = TriggerFrequency"
    by (simp_all add: wf_state_def)
  have sh: "SpikeHistory s' = SpikeHistory s1"
    unfolding s'
    by (simp add: sanity_failed_def read_temperatures_def digitalWrite_def heat_control_def
        debug_msg_def drive_outputs_def upt_NumHeaterPins drive_pin_def set_heaters_def
        set_target_def Let_def)
  from s' len have "length (HeaterEnable s') = NumHeaterPins"
    by (simp add: HeaterEnable_sanity_failed HeaterEnable_set_heaters step_fields
        NumHeaterPins_def)
  with sh len show ?thesis by (simp add: wf_state_def)
qed

lemma run_wf_state:
  "wf_state s \<Longrightarrow> run bd inps s = Inr s' \<Longrightarrow> wf_state s'"
  by (induction inps arbitrary: s) (auto split: sum.splits dest: loop_wf_state)

text \<open>
  Comparing against a deadline and comparing the elapsed time agree as long as the
  deadline does not wrap and the clock is not behind the start.
\<close>

lemma deadline_as_elapsed:
  fixes now t d :: ulong
  assumes "t \<le> now" and "unat t + unat d < 2 ^ 32"
  shows "(now < t + d) = (now - t < d)"
proof -
  from assms(2) have add: "unat (t + d) = unat t + unat d"
    by (simp add: unat_add_lem [THEN iffD1])
  from assms(1) have sub: "unat (now - t) = unat now - unat t"
    by (simp add: unat_sub)
  from assms(1) have "unat t \<le> unat now"
    by (simp add: word_le_nat_alt)
  then show ?thesis
    by (auto simp: word_less_nat_alt add sub)
qed

text \<open>
  Inside the range \<open>-INT_MAX .. INT_MAX\<close> nothing wraps, and the macro is the absolute
  value.
\<close>

lemma int_wrap_id:
  assumes "0 < int_bits bd" and "\<bar>x\<bar> \<le> INT_MAX bd"
  shows "int_wrap bd x = x"
proof -
  from assms(1) obtain n where n: "int_bits bd = Suc n"
    by (cases "int_bits bd") auto
  from assms(2) have "0 \<le> x + 2 ^ n" and "x + 2 ^ n < 2 * 2 ^ n"
    by (simp_all add: INT_MAX_def n)
  then have "(x + 2 ^ n) mod (2 * 2 ^ n) = x + 2 ^ n"
    by (rule mod_pos_pos_trivial)
  then show ?thesis
    by (simp add: int_wrap_def n)
qed

lemma abs_ino_abs:
  assumes "0 < int_bits bd" and "\<bar>x\<bar> \<le> INT_MAX bd"
  shows "abs_ino bd x = \<bar>x\<bar>"
proof -
  from assms have "int_wrap bd (- x) = - x"
    by (intro int_wrap_id) simp_all
  then show ?thesis
    by (simp add: abs_ino_def)
qed

text \<open>Unfolding an iteration on concrete inputs.\<close>

lemma upt_three: "[0..<3] = [0, 1, 2]"
  by (simp add: upt_rec)

lemmas loop_defs =
  loop_def InputCheck_def PushDown_two read_due_def read_temperatures_def sanity_failed_def
  set_target_def set_heaters_def drive_pin_def drive_outputs_def debug_msg_def
  heat_control_def digitalWrite_def TempSanityCheck_def abs_ino_def int_wrap_def
  sanity_return_def upt_NumHeaterPins upt_three Let_def

lemmas example_defs =
  arm_board_def avr_board_def wide_board_def tick_def after_def heater_levels_def
  spiking_def late_spiking_def heating_def scenario_def setup_ino_eq

subsection \<open>The trigger detector\<close>

text \<open>
  Claim C1. The claim: a trigger is declared on a tick if and only if the tick completes
  a spike and the span between the newest and the oldest entry of the two-entry spike
  window is then below \<^verbatim>\<open>TriggerTimeframe\<close>; in particular, of two spikes that end at
  1000 ms and at 1500 ms, the second fires a trigger. The code on the four samples of
  \<open>scenario\<close>, from the start state: with 4-byte pointers \<^verbatim>\<open>InputCheck\<close> answers
  false four times. \<^verbatim>\<open>PushDown\<close> has put each timestamp at index 0 and left index 1
  at 0, so the window is [1000, 0] and then [1500, 0], not [0, 1000] and [1000, 1500], and
  \<^verbatim>\<open>SpikeHistory[1] - SpikeHistory[0]\<close> is 4294966296 and then 4294965796 instead of
  the span between the two newest spikes. With 2-byte pointers the first completed spike
  stores outside the array.
\<close>

theorem C1_scenario_on_code:
  "polls arm_board scenario (setup_ino all_low)
     = [Inr False, Inr False, Inr False, Inr False] \<and>
   after SpikeHistory (run arm_board (take 2 scenario) (setup_ino all_low))
     = Some [1000, 0] \<and>
   after SpikeHistory (run arm_board scenario (setup_ino all_low)) = Some [1500, 0] \<and>
   fifo_push (fifo_push [0, 0] 1000) 1500 = [1000, 1500] \<and>
   polls avr_board scenario (setup_ino all_low) = [Inr False, Inl OutOfBounds]"
  by (simp add: loop_defs fifo_push_def example_defs sketch_consts)

text \<open>
  Claim C9, as amended. For every call of \<^verbatim>\<open>InputCheck\<close> whose sample is exactly
  \<^verbatim>\<open>TriggerThreshold\<close>, the sample is neither above nor below the threshold: it never
  starts a spike and never completes one. The call returns false and leaves every
  global, \<^verbatim>\<open>SpikeUp\<close> and \<^verbatim>\<open>SpikeHistory\<close> included, as it was.
\<close>

theorem C9_threshold_sample_changes_nothing:
  "InputCheck bd (inp\<lparr>analog := TriggerThreshold\<rparr>) s = Inr (False, s)"
  by (simp add: InputCheck_def)

text \<open>
  Against claim C9 as it was stated (``if \<^verbatim>\<open>SpikeUp\<close> is currently set it completes the
  spike exactly as a strictly-below sample would''): with \<^verbatim>\<open>SpikeUp\<close> set, the sample
  100 leaves the state untouched, while the sample 99 stores the timestamp and clears
  \<^verbatim>\<open>SpikeUp\<close>.
\<close>

theorem C9_threshold_counterexample:
  "SpikeUp spiking \<and>
   InputCheck arm_board (tick 100 1000 22 23) spiking = Inr (False, spiking) \<and>
   InputCheck arm_board (tick 99 1000 22 23) spiking
     = Inr (False, spiking\<lparr>SpikeHistory := [1000, 0], SpikeUp := False\<rparr>)"
  by (simp add: InputCheck_def PushDown_two example_defs sketch_consts)

text \<open>
  Claim C8. The claim: \<^verbatim>\<open>PushDown\<close> applied to the two-element \<^verbatim>\<open>SpikeHistory\<close> is a
  fixed-capacity FIFO push, the new timestamp going to the last index. The code at the
  array {0, 0} with the timestamp 1000, and again with 1500: with 4-byte pointers
  \<^verbatim>\<open>sizeof(InputArray)/sizeof(unsigned long)\<close> is 1, nothing is shifted and the
  timestamp goes to index 0, index 1 staying 0 for ever; with 2-byte pointers the quotient
  is 0 and the store goes to \<^verbatim>\<open>InputArray[-1]\<close>. The FIFO push gives {0, 1000} and then
  {1000, 1500}.
\<close>

theorem C8_PushDown_misses_fifo:
  "PushDown arm_board [0, 0] 1000 = Inr [1000, 0] \<and>
   PushDown arm_board [1000, 0] 1500 = Inr [1500, 0] \<and>
   PushDown avr_board [0, 0] 1000 = Inl OutOfBounds \<and>
   fifo_push [0, 0] 1000 = [0, 1000] \<and>
   fifo_push [0, 1000] 1500 = [1000, 1500]"
  by (simp add: PushDown_two fifo_push_def arm_board_def avr_board_def sizeof_unsigned_long_def)

subsection \<open>The temperature gate\<close>

text \<open>
  Claim C3, as amended. For every pair of readings \<open>a\<close>, \<open>b\<close>, \<^verbatim>\<open>TempSanityCheck\<close>
  answers false if \<open>a\<close> or \<open>b\<close> is below \<open>LowerBound\<close>, whatever the other one is.
  For every pair whose difference lies in \<open>-INT_MAX .. INT_MAX\<close>, so that neither the
  subtraction nor \<^verbatim>\<open>abs\<close> overflows the board's \<^verbatim>\<open>int\<close> (every pair of values the
  probes deliver is such a pair), it answers false if \<open>\<bar>a - b\<bar>\<close> exceeds
  \<open>DeviationBound\<close> and true in every other case. It is a function of the board and of
  its two arguments alone: no global is read or written.
\<close>

theorem C3_TempSanityCheck_cases:
  "(a < LowerBound \<or> b < LowerBound \<longrightarrow> TempSanityCheck bd a b = False) \<and>
   (0 < int_bits bd \<and> \<bar>a - b\<bar> \<le> INT_MAX bd \<longrightarrow>
      (\<bar>a - b\<bar> > DeviationBound \<longrightarrow> TempSanityCheck bd a b = False) \<and>
      (\<not> (a < LowerBound \<or> b < LowerBound) \<and> \<not> \<bar>a - b\<bar> > DeviationBound
         \<longrightarrow> TempSanityCheck bd a b = True))"
proof -
  have "abs_ino bd (int_wrap bd (a - b)) = \<bar>a - b\<bar>"
    if "0 < int_bits bd" and "\<bar>a - b\<bar> \<le> INT_MAX bd"
    using that by (simp add: int_wrap_id abs_ino_abs)
  then show ?thesis
    by (auto simp: TempSanityCheck_def)
qed

text \<open>
  On the AVR board, where \<open>INT_MAX\<close> is 32767: the readings (22, 23), (-25, 20),
  (20, -25) and (22, 35), and the pair (-25, 32767), rejected for its first reading
  although the difference is out of range.
\<close>

theorem C3_TempSanityCheck_cases_witness:
  "0 < int_bits avr_board \<and> INT_MAX avr_board = 32767 \<and>
   TempSanityCheck avr_board 22 23 = True \<and> TempSanityCheck avr_board (- 25) 20 = False \<and>
   TempSanityCheck avr_board 20 (- 25) = False \<and> TempSanityCheck avr_board 22 35 = False \<and>
   TempSanityCheck avr_board (- 25) 32767 = False"
  using C3_TempSanityCheck_cases [of 22 23 avr_board]
    C3_TempSanityCheck_cases [of "- 25" 20 avr_board]
    C3_TempSanityCheck_cases [of 20 "- 25" avr_board]
    C3_TempSanityCheck_cases [of 22 35 avr_board]
    C3_TempSanityCheck_cases [of "- 25" 32767 avr_board]
  by (simp add: LowerBound_def DeviationBound_def INT_MAX_def avr_board_def)

text \<open>
  Against claim C3 as it was stated, for every pair of readings: on the AVR board the
  readings 32767 and -1 are both above \<open>LowerBound\<close> and 32768 apart, far more than
  \<open>DeviationBound\<close>, and the check accepts them, in either order. The subtraction wraps
  to -32768 and the macro, negating that, gives -32768 again, which is not above 10. The
  same happens on the 32-bit board at 2147483647 and -1.
\<close>

theorem C3_overflow_counterexample:
  "INT_MAX avr_board = 32767 \<and>
   DeviationBound < \<bar>32767 - (- 1 :: int)\<bar> \<and>
   TempSanityCheck avr_board 32767 (- 1) = True \<and>
   TempSanityCheck avr_board (- 1) 32767 = True \<and>
   INT_MAX arm_board = 2147483647 \<and>
   TempSanityCheck arm_board 2147483647 (- 1) = True \<and>
   TempSanityCheck arm_board (- 1) 2147483647 = True"
  by (simp add: TempSanityCheck_def abs_ino_def int_wrap_def INT_MAX_def LowerBound_def
      DeviationBound_def avr_board_def arm_board_def)

subsection \<open>The heat controller\<close>

text \<open>
  Claim C2, as amended. On every loop iteration that reaches the target computation,
  \<^verbatim>\<open>TargetTempature\<close> is set to \<^verbatim>\<open>HeatTarget\<close> if the clock read at line 131 is
  strictly below the deadline \<^verbatim>\<open>HeatEnableTime + HeatOnDuration\<close>, the sum taken in
  unsigned 32-bit arithmetic, and to \<^verbatim>\<open>StandByTarget\<close> otherwise. Whenever that sum
  does not wrap and the clock is not behind \<^verbatim>\<open>HeatEnableTime\<close>, this is the same as
  comparing the elapsed time: the target is \<^verbatim>\<open>HeatTarget\<close> if
  \<^verbatim>\<open>now - HeatEnableTime < HeatOnDuration\<close> and \<^verbatim>\<open>StandByTarget\<close> otherwise, so that
  after a trigger the target is the heating setpoint for \<^verbatim>\<open>HeatOnDuration\<close> and falls
  back to standby once that time has passed without a further trigger.
\<close>

theorem C2_target_by_deadline:
  assumes "loop bd inp s = Inr s'" and "\<not> sanity_return bd inp s"
  shows "TargetTempature s' =
           (if now_target inp < HeatEnableTime s' + word_of_int HeatOnDuration
            then HeatTarget else StandByTarget) \<and>
         (HeatEnableTime s' \<le> now_target inp \<and>
          unat (HeatEnableTime s') + nat HeatOnDuration < 2 ^ 32 \<longrightarrow>
            TargetTempature s' =
              (if now_target inp - HeatEnableTime s' < word_of_int HeatOnDuration
               then HeatTarget else StandByTarget))"
proof -
  from loop_Inr [OF assms(1)] assms(2) obtain Triggered s1 where
    ic: "InputCheck bd inp s = Inr (Triggered, s1)" and
    s': "s' = heat_control bd inp Triggered
                (if read_due inp s
                 then read_temperatures inp (digitalWrite (LED_BUILTIN bd) False s1)
                 else digitalWrite (LED_BUILTIN bd) False s1)"
    by auto
  from s' have tgt: "TargetTempature s' =
           (if now_target inp < HeatEnableTime s' + word_of_int HeatOnDuration
            then HeatTarget else StandByTarget)"
    by (simp add: step_fields)
  have d: "unat (word_of_int HeatOnDuration :: ulong) = nat HeatOnDuration"
    by (simp add: HeatOnDuration_def)
  show ?thesis
    using tgt
      deadline_as_elapsed [of "HeatEnableTime s'" "now_target inp" "word_of_int HeatOnDuration"]
    by (simp add: d)
qed

text \<open>
  Five seconds after the start (\<^verbatim>\<open>HeatEnableTime\<close> is still 0) the target is the
  heating setpoint; a minute after the start it is the standby setpoint.
\<close>

theorem C2_target_by_deadline_witness:
  "(\<exists>s'. loop avr_board (tick 0 5000 22 23) (setup_ino all_low) = Inr s' \<and>
      \<not> sanity_return avr_board (tick 0 5000 22 23) (setup_ino all_low) \<and>
      HeatEnableTime s' \<le> now_target (tick 0 5000 22 23) \<and>
      unat (HeatEnableTime s') + nat HeatOnDuration < 2 ^ 32 \<and>
      now_target (tick 0 5000 22 23) - HeatEnableTime s' < word_of_int HeatOnDuration \<and>
      TargetTempature s' = HeatTarget) \<and>
   (\<exists>s'. loop avr_board (tick 0 61501 22 23) heating = Inr s' \<and>
      \<not> sanity_return avr_board (tick 0 61501 22 23) heating \<and>
      HeatEnableTime s' \<le> now_target (tick 0 61501 22 23) \<and>
      unat (HeatEnableTime s') + nat HeatOnDuration < 2 ^ 32 \<and>
      \<not> now_target (tick 0 61501 22 23) - HeatEnableTime s' < word_of_int HeatOnDuration \<and>
      TargetTempature s' = StandByTarget)"
proof -
  obtain s' where l: "loop avr_board (tick 0 5000 22 23) (setup_ino all_low) = Inr s'"
    by (simp add: loop_defs example_defs sketch_consts)
  have n: "\<not> sanity_return avr_board (tick 0 5000 22 23) (setup_ino all_low)"
    by (simp add: loop_defs example_defs sketch_consts)
  from l have het: "HeatEnableTime s' = 0"
    by (auto simp: loop_defs example_defs sketch_consts)
  have now: "now_target (tick 0 5000 22 23) = 5000"
    by (simp add: tick_def)
  from C2_target_by_deadline [OF l n] have "TargetTempature s' = HeatTarget"
    by (simp add: het now HeatOnDuration_def)
  with l n have one: "\<exists>s'. loop avr_board (tick 0 5000 22 23) (setup_ino all_low) = Inr s' \<and>
      \<not> sanity_return avr_board (tick 0 5000 22 23) (setup_ino all_low) \<and>
      HeatEnableTime s' \<le> now_target (tick 0 5000 22 23) \<and>
      unat (HeatEnableTime s') + nat HeatOnDuration < 2 ^ 32 \<and>
      now_target (tick 0 5000 22 23) - HeatEnableTime s' < word_of_int HeatOnDuration \<and>
      TargetTempature s' = HeatTarget"
    by (simp add: het now HeatOnDuration_def)
  obtain t' where l2: "loop avr_board (tick 0 61501 22 23) heating = Inr t'"
    by (simp add: loop_defs example_defs sketch_consts)
  have n2: "\<not> sanity_return avr_board (tick 0 61501 22 23) heating"
    by (simp add: loop_defs example_defs sketch_consts)
  from l2 have het2: "HeatEnableTime t' = 0"
    by (auto simp: loop_defs example_defs sketch_consts)
  have now2: "now_target (tick 0 61501 22 23) = 61501"
    by (simp add: tick_def)
  from C2_target_by_deadline [OF l2 n2] have "TargetTempature t' = StandByTarget"
    by (simp add: het2 now2 HeatOnDuration_def)
  with l2 n2 have two: "\<exists>s'. loop avr_board (tick 0 61501 22 23) heating = Inr s' \<and>
      \<not> sanity_return avr_board (tick 0 61501 22 23) heating \<and>
      HeatEnableTime s' \<le> now_target (tick 0 61501 22 23) \<and>
      unat (HeatEnableTime s') + nat HeatOnDuration < 2 ^ 32 \<and>
      \<not> now_target (tick 0 61501 22 23) - HeatEnableTime s' < word_of_int HeatOnDuration \<and>
      TargetTempature s' = StandByTarget"
    by (simp add: het2 now2 HeatOnDuration_def)
  from one two show ?thesis by blast
qed

text \<open>
  Against claim C2 as it was stated (heating setpoint whenever
  \<^verbatim>\<open>now - HeatEnableTime < HeatOnDuration\<close>): on a board with 4-byte pointers, 2000 ms
  before the clock wraps, a spike ends and \<^verbatim>\<open>InputCheck\<close> declares a trigger. The
  iteration reaches the target computation and sets \<^verbatim>\<open>HeatEnableTime\<close> to
  4294965296; no time has elapsed since, yet the deadline has wrapped to 13000 and the
  target is the standby setpoint.
\<close>

theorem C2_clock_wrap_counterexample:
  "polls arm_board [tick 50 4294965296 22 23] late_spiking = [Inr True] \<and>
   \<not> sanity_return arm_board (tick 50 4294965296 22 23) late_spiking \<and>
   after HeatEnableTime (loop arm_board (tick 50 4294965296 22 23) late_spiking)
     = Some 4294965296 \<and>
   now_target (tick 50 4294965296 22 23) - 4294965296 < (word_of_int HeatOnDuration :: ulong) \<and>
   after TargetTempature (loop arm_board (tick 50 4294965296 22 23) late_spiking)
     = Some StandByTarget"
  by (simp add: loop_defs example_defs sketch_consts)

text \<open>
  Claim C7, as amended. On every loop iteration where \<^verbatim>\<open>InputCheck\<close> returns true and
  that is not ended by the \<^verbatim>\<open>return\<close> of a failed temperature sanity check,
  \<^verbatim>\<open>HeatEnableTime\<close> is set to the current time (the clock read at line 128), whether
  or not the hold window was already running. On an iteration where a read is due and
  \<^verbatim>\<open>TempSanityCheck\<close> fails, the iteration ends before line 127:
  \<^verbatim>\<open>HeatEnableTime\<close> keeps its value and the trigger is dropped.
\<close>

theorem C7_trigger_restarts_hold_unless_sanity_return:
  assumes "InputCheck bd inp s = Inr (True, s1)"
  shows "\<exists>s'. loop bd inp s = Inr s' \<and>
           HeatEnableTime s' = (if sanity_return bd inp s then HeatEnableTime s else now_trig inp)"
proof -
  from loop_returns [OF assms] obtain s' where l: "loop bd inp s = Inr s'" ..
  from loop_Inr [OF l] assms have
    "s' = (if sanity_return bd inp s
               then sanity_failed
                      (read_temperatures inp (digitalWrite (LED_BUILTIN bd) False s1))
               else heat_control bd inp True
                      (if read_due inp s
                       then read_temperatures inp (digitalWrite (LED_BUILTIN bd) False s1)
                       else digitalWrite (LED_BUILTIN bd) False s1))"
    by auto
  with InputCheck_fields [OF assms] have
    "HeatEnableTime s' = (if sanity_return bd inp s then HeatEnableTime s else now_trig inp)"
    by (simp add: step_fields)
  with l show ?thesis by blast
qed

text \<open>
  With 8-byte pointers, a spike ending 2000 ms after the start is a trigger; the probes
  read 22 and 23, the iteration runs to its end and \<^verbatim>\<open>HeatEnableTime\<close> becomes 2000.
\<close>

theorem C7_trigger_restarts_hold_witness:
  "InputCheck wide_board (tick 50 2000 22 23) spiking
     = Inr (True, spiking\<lparr>SpikeHistory := [0, 2000], SpikeUp := False\<rparr>) \<and>
   \<not> sanity_return wide_board (tick 50 2000 22 23) spiking \<and>
   (\<exists>s'. loop wide_board (tick 50 2000 22 23) spiking = Inr s' \<and> HeatEnableTime s' = 2000)"
proof -
  have ic: "InputCheck wide_board (tick 50 2000 22 23) spiking
     = Inr (True, spiking\<lparr>SpikeHistory := [0, 2000], SpikeUp := False\<rparr>)"
    by (simp add: InputCheck_def PushDown_two example_defs sketch_consts)
  have n: "\<not> sanity_return wide_board (tick 50 2000 22 23) spiking"
    by (simp add: loop_defs example_defs sketch_consts)
  from C7_trigger_restarts_hold_unless_sanity_return [OF ic] n ic show ?thesis
    by (simp add: tick_def)
qed

text \<open>
  Against claim C7 as it was stated (``including on iterations where the temperature
  sanity check happens to fail''): a trigger on an iteration whose read finds the left
  probe disconnected (-127). \<^verbatim>\<open>HeatEnableTime\<close> is 0 before and 0 after, not the
  current time; once on a board with 4-byte pointers shortly before the clock wraps, once
  with 8-byte pointers 2000 ms after the start.
\<close>

theorem C7_dropped_trigger_counterexample:
  "polls arm_board [tick 50 4294966200 (- 127) 22] late_spiking = [Inr True] \<and>
   sanity_return arm_board (tick 50 4294966200 (- 127) 22) late_spiking \<and>
   now_trig (tick 50 4294966200 (- 127) 22) = 4294966200 \<and>
   after HeatEnableTime (loop arm_board (tick 50 4294966200 (- 127) 22) late_spiking) = Some 0 \<and>
   polls wide_board [tick 50 2000 (- 127) 22] spiking = [Inr True] \<and>
   sanity_return wide_board (tick 50 2000 (- 127) 22) spiking \<and>
   now_trig (tick 50 2000 (- 127) 22) = 2000 \<and>
   after HeatEnableTime (loop wide_board (tick 50 2000 (- 127) 22) spiking) = Some 0"
  by (simp add: loop_defs example_defs sketch_consts)

text \<open>
  Claim C4. At the end of every loop iteration the centre flag is the conjunction of the
  two side flags: \<^verbatim>\<open>HeaterEnable[2]\<close> is true if and only if \<^verbatim>\<open>HeaterEnable[0]\<close> and
  \<^verbatim>\<open>HeaterEnable[1]\<close> are both true. This holds for the iterations that run through
  lines 140 to 154 and for those ended at line 123 with all three flags false, whatever
  the flags were before.
\<close>

theorem C4_center_is_conjunction:
  assumes "wf_state s" and "loop bd inp s = Inr s'"
  shows "HeaterEnable s' ! 2 = (HeaterEnable s' ! 0 \<and> HeaterEnable s' ! 1)"
proof -
  from loop_Inr [OF assms(2)] obtain Triggered s1 where
    ic: "InputCheck bd inp s = Inr (Triggered, s1)" and
    s': "s' = (if sanity_return bd inp s
               then sanity_failed
                      (read_temperatures inp (digitalWrite (LED_BUILTIN bd) False s1))
               else heat_control bd inp Triggered
                      (if read_due inp s
                       then read_temperatures inp (digitalWrite (LED_BUILTIN bd) False s1)
                       else digitalWrite (LED_BUILTIN bd) False s1))"
    by blast
  from assms(1) InputCheck_fields(5) [OF ic]
  have len: "length (HeaterEnable s1) = NumHeaterPins"
    by (simp add: wf_state_def)
  from s' len show ?thesis
    by (simp add: HeaterEnable_sanity_failed HeaterEnable_set_heaters step_fields)
qed

text \<open>
  One iteration of each kind from the state \<open>heating\<close>: a read that fails the check
  (left probe -127), and a read that passes with the left probe below the standby target
  and the right one above it (22 and 27).
\<close>

theorem C4_center_is_conjunction_witness:
  "wf_state heating \<and>
   (\<exists>s'. loop avr_board (tick 0 61500 (- 127) 22) heating = Inr s' \<and>
      HeaterEnable s' ! 2 = (HeaterEnable s' ! 0 \<and> HeaterEnable s' ! 1)) \<and>
   (\<exists>s'. loop avr_board (tick 0 61500 22 27) heating = Inr s' \<and>
      HeaterEnable s' ! 2 = (HeaterEnable s' ! 0 \<and> HeaterEnable s' ! 1))"
proof -
  have wf: "wf_state heating"
    by (simp add: wf_state_def heating_def setup_ino_eq TriggerFrequency_def NumHeaterPins_def)
  obtain s' where l: "loop avr_board (tick 0 61500 (- 127) 22) heating = Inr s'"
    by (simp add: loop_defs example_defs sketch_consts)
  obtain t' where l2: "loop avr_board (tick 0 61500 22 27) heating = Inr t'"
    by (simp add: loop_defs example_defs sketch_consts)
  from C4_center_is_conjunction [OF wf l] C4_center_is_conjunction [OF wf l2] wf l l2
  show ?thesis by blast
qed

subsection \<open>The iteration that ends at line 123\<close>

text \<open>
  Claim C5. On every loop iteration where a temperature read occurs and
  \<^verbatim>\<open>TempSanityCheck\<close> returns false, all heater-enable flags are set false and the rest
  of the iteration is skipped: \<^verbatim>\<open>HeatEnableTime\<close> and \<^verbatim>\<open>TargetTempature\<close> keep their
  values, and so do \<^verbatim>\<open>LastDebugMsg\<close> and every pin except the LED, which line 102 has
  already switched off.
\<close>

theorem C5_sanity_return_frame:
  assumes "wf_state s" and "loop bd inp s = Inr s'" and "sanity_return bd inp s"
  shows "HeaterEnable s' = replicate NumHeaterPins False \<and>
         HeatEnableTime s' = HeatEnableTime s \<and>
         TargetTempature s' = TargetTempature s \<and>
         LastDebugMsg s' = LastDebugMsg s \<and>
         pins s' = (pins s)(LED_BUILTIN bd := False)"
proof -
  from loop_Inr [OF assms(2)] assms(3) obtain Triggered s1 where
    ic: "InputCheck bd inp s = Inr (Triggered, s1)" and
    s': "s' = sanity_failed (read_temperatures inp (digitalWrite (LED_BUILTIN bd) False s1))"
    by auto
  from assms(1) InputCheck_fields(5) [OF ic]
  have len: "length (HeaterEnable s1) = NumHeaterPins"
    by (simp add: wf_state_def)
  from s' len InputCheck_fields [OF ic] show ?thesis
    by (simp add: HeaterEnable_sanity_failed step_fields NumHeaterPins_def numeral_3_eq_3)
qed

text \<open>From \<open>heating\<close>, a read that finds the right probe disconnected.\<close>

theorem C5_sanity_return_frame_witness:
  "wf_state heating \<and> sanity_return avr_board (tick 0 61500 22 (- 127)) heating \<and>
   (\<exists>s'. loop avr_board (tick 0 61500 22 (- 127)) heating = Inr s' \<and>
      HeaterEnable s' = replicate NumHeaterPins False \<and>
      HeatEnableTime s' = HeatEnableTime heating \<and>
      TargetTempature s' = TargetTempature heating \<and>
      LastDebugMsg s' = LastDebugMsg heating \<and>
      pins s' = (pins heating)(LED_BUILTIN avr_board := False))"
proof -
  have wf: "wf_state heating"
    by (simp add: wf_state_def heating_def setup_ino_eq TriggerFrequency_def NumHeaterPins_def)
  have sr: "sanity_return avr_board (tick 0 61500 22 (- 127)) heating"
    by (simp add: loop_defs example_defs sketch_consts)
  obtain s' where l: "loop avr_board (tick 0 61500 22 (- 127)) heating = Inr s'"
    by (simp add: loop_defs example_defs sketch_consts)
  from C5_sanity_return_frame [OF wf l sr] wf sr l show ?thesis by blast
qed

text \<open>
  Claim C6, as amended. On every tick where a temperature read occurs and the check of
  the new readings fails, the per-tick derivation of the Heater Enable Vector is skipped
  and the vector is forced to all-false, whatever it was before and whatever the
  readings and the target are; it is not left unchanged.
\<close>

theorem C6_sanity_return_clears_flags:
  assumes "wf_state s" and "loop bd inp s = Inr s'" and "sanity_return bd inp s"
  shows "HeaterEnable s' = [False, False, False]"
proof -
  from loop_Inr [OF assms(2)] assms(3) obtain Triggered s1 where
    ic: "InputCheck bd inp s = Inr (Triggered, s1)" and
    s': "s' = sanity_failed (read_temperatures inp (digitalWrite (LED_BUILTIN bd) False s1))"
    by auto
  from assms(1) InputCheck_fields(5) [OF ic]
  have len: "length (HeaterEnable s1) = NumHeaterPins"
    by (simp add: wf_state_def)
  from s' len show ?thesis
    by (simp add: HeaterEnable_sanity_failed step_fields)
qed

text \<open>From \<open>heating\<close>, where all three flags are set, a read of 22 and 40.\<close>

theorem C6_sanity_return_clears_flags_witness:
  "wf_state heating \<and> sanity_return avr_board (tick 0 61500 22 40) heating \<and>
   HeaterEnable heating = [True, True, True] \<and>
   (\<exists>s'. loop avr_board (tick 0 61500 22 40) heating = Inr s' \<and>
      HeaterEnable s' = [False, False, False])"
proof -
  have wf: "wf_state heating"
    by (simp add: wf_state_def heating_def setup_ino_eq TriggerFrequency_def NumHeaterPins_def)
  have sr: "sanity_return avr_board (tick 0 61500 22 40) heating"
    by (simp add: loop_defs example_defs sketch_consts)
  have he: "HeaterEnable heating = [True, True, True]"
    by (simp add: heating_def)
  obtain s' where l: "loop avr_board (tick 0 61500 22 40) heating = Inr s'"
    by (simp add: loop_defs example_defs sketch_consts)
  from C6_sanity_return_clears_flags [OF wf l sr] wf sr he l show ?thesis by blast
qed

text \<open>
  Against claim C6 as it was stated. The vector is not left unchanged by the failing
  tick: from \<open>heating\<close>, with the flags [true, true, true], a read that finds the left
  probe disconnected (-127, 22) ends with [false, false, false]. And the very next
  iteration, one millisecond later with no read due, recomputes the vector from the
  stored, rejected readings: -127 and 22 are both below the target, so all three flags
  are true again.
\<close>

theorem C6_freeze_counterexample:
  "HeaterEnable heating = [True, True, True] \<and>
   sanity_return avr_board (tick 0 61500 (- 127) 22) heating \<and>
   after HeaterEnable (run avr_board [tick 0 61500 (- 127) 22] heating)
     = Some [False, False, False] \<and>
   after (read_due (tick 0 61501 (- 127) 22)) (run avr_board [tick 0 61500 (- 127) 22] heating)
     = Some False \<and>
   after LeftTempature
     (run avr_board [tick 0 61500 (- 127) 22, tick 0 61501 (- 127) 22] heating)
     = Some (- 127) \<and>
   after RightTempature
     (run avr_board [tick 0 61500 (- 127) 22, tick 0 61501 (- 127) 22] heating)
     = Some 22 \<and>
   after HeaterEnable
     (run avr_board [tick 0 61500 (- 127) 22, tick 0 61501 (- 127) 22] heating)
     = Some [True, True, True]"
  by (simp add: loop_defs example_defs sketch_consts)

text \<open>
  Claim C10, as amended. On any loop iteration where \<^verbatim>\<open>TempSanityCheck\<close> fails, the
  early return also skips the output-drive loop, so the heater pins are not written that
  iteration: they keep the levels driven before, even though all \<^verbatim>\<open>HeaterEnable\<close>
  flags were just set false. The cleared flags themselves never reach the pins: every
  iteration that gets past the sanity check sets all three flags anew from the stored
  readings and the target (lines 140 to 154) before its output-drive loop, and the
  heater pins take those values. (The LED is taken not to share a pin with a heater:
  line 102 writes the LED on every iteration.)
\<close>

theorem C10_pins_follow_recomputed_flags:
  assumes "wf_state s" and "loop bd inp s = Inr s'" and "LED_BUILTIN bd \<notin> set HeaterPin"
  shows "(sanity_return bd inp s \<longrightarrow>
            heater_levels s' = heater_levels s \<and> HeaterEnable s' = [False, False, False]) \<and>
         (\<not> sanity_return bd inp s \<longrightarrow>
            heater_levels s' = HeaterEnable s' \<and>
            HeaterEnable s' =
              [LeftTempature s' < TargetTempature s', RightTempature s' < TargetTempature s',
               LeftTempature s' < TargetTempature s' \<and> RightTempature s' < TargetTempature s'])"
proof -
  from loop_Inr [OF assms(2)] obtain Triggered s1 where
    ic: "InputCheck bd inp s = Inr (Triggered, s1)" and
    s': "s' = (if sanity_return bd inp s
               then sanity_failed
                      (read_temperatures inp (digitalWrite (LED_BUILTIN bd) False s1))
               else heat_control bd inp Triggered
                      (if read_due inp s
                       then read_temperatures inp (digitalWrite (LED_BUILTIN bd) False s1)
                       else digitalWrite (LED_BUILTIN bd) False s1))"
    by blast
  from assms(1) InputCheck_fields(5) [OF ic]
  have len: "length (HeaterEnable s1) = NumHeaterPins"
    by (simp add: wf_state_def)
  from assms(3) have led: "\<forall>p \<in> set HeaterPin. p \<noteq> LED_BUILTIN bd"
    by blast
  show ?thesis
  proof (cases "sanity_return bd inp s")
    case True
    with s' len led InputCheck_fields(4) [OF ic] show ?thesis
      by (simp add: HeaterEnable_sanity_failed step_fields heater_levels_def)
  next
    case False
    define x where "x = set_heaters (set_target inp Triggered
                (if read_due inp s
                 then read_temperatures inp (digitalWrite (LED_BUILTIN bd) False s1)
                 else digitalWrite (LED_BUILTIN bd) False s1))"
    from len have lx: "length (HeaterEnable x) = NumHeaterPins"
      by (simp add: x_def HeaterEnable_set_heaters step_fields NumHeaterPins_def)
    from False s' have "heater_levels s' = heater_levels (drive_outputs bd x)"
      by (simp add: heater_levels_def step_fields x_def)
    with heater_levels_drive_outputs [OF lx assms(3)]
    have hl: "heater_levels s' = HeaterEnable x" by simp
    from False s' have he: "HeaterEnable s' = HeaterEnable x"
      by (simp add: step_fields x_def)
    from False s' len have "HeaterEnable s' =
              [LeftTempature s' < TargetTempature s', RightTempature s' < TargetTempature s',
               LeftTempature s' < TargetTempature s' \<and> RightTempature s' < TargetTempature s']"
      by (simp add: HeaterEnable_set_heaters step_fields set_heaters_fields)
    with False hl he show ?thesis by simp
  qed
qed

text \<open>
  From \<open>heating\<close>, with all heater pins high: a read of 5 and 22 fails the check and the
  pins stay high; a read of 22 and 27 passes and the pins take the new flags.
\<close>

theorem C10_pins_follow_recomputed_flags_witness:
  "wf_state heating \<and> LED_BUILTIN avr_board \<notin> set HeaterPin \<and>
   sanity_return avr_board (tick 0 61500 5 22) heating \<and>
   \<not> sanity_return avr_board (tick 0 61500 22 27) heating \<and>
   heater_levels heating = [True, True, True] \<and>
   (\<exists>s'. loop avr_board (tick 0 61500 5 22) heating = Inr s' \<and>
      heater_levels s' = heater_levels heating \<and> HeaterEnable s' = [False, False, False]) \<and>
   (\<exists>s'. loop avr_board (tick 0 61500 22 27) heating = Inr s' \<and>
      heater_levels s' = HeaterEnable s' \<and>
      HeaterEnable s' =
        [LeftTempature s' < TargetTempature s', RightTempature s' < TargetTempature s',
         LeftTempature s' < TargetTempature s' \<and> RightTempature s' < TargetTempature s'])"
proof -
  have wf: "wf_state heating"
    by (simp add: wf_state_def heating_def setup_ino_eq TriggerFrequency_def NumHeaterPins_def)
  have led: "LED_BUILTIN avr_board \<notin> set HeaterPin"
    by (simp add: avr_board_def HeaterPin_def)
  have sr: "sanity_return avr_board (tick 0 61500 5 22) heating"
    by (simp add: loop_defs example_defs sketch_consts)
  have nsr: "\<not> sanity_return avr_board (tick 0 61500 22 27) heating"
    by (simp add: loop_defs example_defs sketch_consts)
  have hl: "heater_levels heating = [True, True, True]"
    by (simp add: example_defs all_high_def HeaterPin_def)
  obtain s' where l: "loop avr_board (tick 0 61500 5 22) heating = Inr s'"
    by (simp add: loop_defs example_defs sketch_consts)
  obtain t' where l2: "loop avr_board (tick 0 61500 22 27) heating = Inr t'"
    by (simp add: loop_defs example_defs sketch_consts)
  from C10_pins_follow_recomputed_flags [OF wf l led]
    C10_pins_follow_recomputed_flags [OF wf l2 led] wf led sr nsr hl l l2
  show ?thesis by blast
qed

text \<open>
  Against claim C10 as it was stated (``the cleared flags only reach the pins on a later
  iteration that gets past the sanity check''). From \<open>heating\<close>, with all heater pins
  high: a read of 5 and 22 fails the check, the flags are cleared and the pins stay
  high. One millisecond later no read is due, the iteration runs to its end, and the
  pins are driven from flags set anew from the stored 5 and 22: all high. A second later
  a read of 22 and 23 passes the check: all high again. The cleared flags have reached
  the pins in neither iteration.
\<close>

theorem C10_cleared_flags_counterexample:
  "heater_levels heating = [True, True, True] \<and>
   sanity_return avr_board (tick 0 61500 5 22) heating \<and>
   after HeaterEnable (run avr_board [tick 0 61500 5 22] heating)
     = Some [False, False, False] \<and>
   after heater_levels (run avr_board [tick 0 61500 5 22] heating)
     = Some [True, True, True] \<and>
   after (sanity_return avr_board (tick 0 61501 5 22)) (run avr_board [tick 0 61500 5 22] heating)
     = Some False \<and>
   after heater_levels (run avr_board [tick 0 61500 5 22, tick 0 61501 5 22] heating)
     = Some [True, True, True] \<and>
   after (sanity_return avr_board (tick 0 62600 22 23))
     (run avr_board [tick 0 61500 5 22, tick 0 61501 5 22] heating)
     = Some False \<and>
   after heater_levels
     (run avr_board [tick 0 61500 5 22, tick 0 61501 5 22, tick 0 62600 22 23] heating)
     = Some [True, True, True]"
  by (simp add: loop_defs example_defs sketch_consts all_high_def)

end
